theory Spec2Isabelle
  imports Complex_Main "HOL-Library.Multiset" "HOL-Library.Product_Lexorder"
    "HOL-Library.List_Lexorder" "HOL-Library.Char_ord"
begin

section \<open>Numbers, time and angles\<close>

text \<open>
  The pipeline computes on pandas columns. Two idealisations are made once, here:
  \<^item> a \<^verbatim>\<open>float64\<close> cell is a \<^typ>\<open>real\<close>: rounding is not modelled, and the one
    division whose divisor can vanish (\<^verbatim>\<open>pred_lon\<close>) is written out with
    \<open>np_divide\<close> below;
  \<^item> a \<^verbatim>\<open>datetime64[ns, UTC]\<close> cell is an \<^typ>\<open>int\<close>, the nanoseconds since the epoch,
    and a \<^verbatim>\<open>Timedelta\<close> is an \<^typ>\<open>int\<close> of nanoseconds. The 64-bit range of pandas
    (years 1677 to 2262) is not modelled: the archive the source reads is of 2023.
\<close>

type_synonym timestamp = int

text \<open>\<^verbatim>\<open>pd.Timedelta(minutes=n)\<close>, in nanoseconds.\<close>

definition Timedelta_minutes :: "int \<Rightarrow> int" where
  "Timedelta_minutes n = n * 60 * 1000000000"

text \<open>\<^verbatim>\<open>.dt.total_seconds()\<close> of a difference of two timestamps.\<close>

definition total_seconds :: "int \<Rightarrow> real" where
  "total_seconds d = real_of_int d / 1000000000"

text \<open>\<^verbatim>\<open>np.radians\<close>.\<close>

definition radians :: "real \<Rightarrow> real" where
  "radians x = x * pi / 180"

text \<open>
  numpy's division raises nothing: a zero divisor gives \<^verbatim>\<open>inf\<close> or \<^verbatim>\<open>nan\<close>.
  \<open>None\<close> stands for that non-finite cell. Over the reals the divisor of \<^verbatim>\<open>pred_lon\<close>,
  \<open>cos(radians(lat))\<close>, is zero at latitude 90 and -90; over \<^verbatim>\<open>float64\<close> the rounded
  cosine there is small and not zero, and the code returns a large finite number. So the
  \<open>None\<close> case answers to no cell of the program: every theorem below about \<^verbatim>\<open>pred_lon\<close>
  is stated where the divisor is not zero, and none is stated where it is.
\<close>

definition np_divide :: "real \<Rightarrow> real \<Rightarrow> real option" where
  "np_divide a b = (if b = 0 then None else Some (a / b))"

section \<open>Ingestion: \<^verbatim>\<open>raw_ais.build\<close> and \<^verbatim>\<open>pipeline.build_ais\<close>\<close>

text \<open>
  A row of the CSV file as \<^verbatim>\<open>pd.read_csv\<close> returns it, under the header's column names.
  \<open>BaseDateTime\<close> is read as text and is only parsed by the last statement of
  \<^verbatim>\<open>build\<close>; its type is a parameter with the order \<^verbatim>\<open>sort_values\<close> compares it by
  (for text, \<^typ>\<open>string\<close> in its lexicographic order).
  The columns the code only carries along (name, imo, call sign, vessel type, status,
  width, draft, cargo) are left out. The download and the unzipping are not modelled:
  \<open>build\<close> starts from the rows read.
\<close>

record 'u csv_row =
  MMSI :: int
  BaseDateTime :: 'u
  LAT :: real
  LON :: real
  SOG :: real
  COG :: real
  Heading :: "real option"
  Length :: real
  TransceiverClass :: string

text \<open>
  A row of the frame \<^verbatim>\<open>build\<close> returns, under the renamed columns; \<open>mmsi\<close> and \<open>ping\<close>
  are its index. \<open>length'\<close> is the column \<^verbatim>\<open>length\<close>.
\<close>

record report =
  mmsi :: int
  ping :: nat
  utc :: timestamp
  lat :: real
  lon :: real
  sog :: real
  cog :: real
  heading :: "real option"
  length' :: real
  transceiver_class :: string

text \<open>
  \<^verbatim>\<open>groupby(key).cumcount()\<close>: each row is numbered by how many rows before it carry
  the same key.
\<close>

definition cumcount :: "'k list \<Rightarrow> nat list" where
  "cumcount ks = map (\<lambda>i. count_list (take i ks) (ks ! i)) [0..<length ks]"

text \<open>
  \<^verbatim>\<open>build\<close>, statement by statement from the filters on. The rename of the columns
  changes names only: the model keeps the CSV names until the rows are rebuilt under the
  index. \<open>to_datetime\<close> is \<^verbatim>\<open>pd.to_datetime(_, utc=True)\<close>, a parameter.
\<close>

definition build :: "('u::linorder \<Rightarrow> timestamp) \<Rightarrow> 'u csv_row list \<Rightarrow> report list" where
  "build to_datetime csv =
    (let ais = filter (\<lambda>r. TransceiverClass r = ''A'') csv;
         ais = filter (\<lambda>r. SOG r > 1 \<and> SOG r < 80) ais;
         ais = filter (\<lambda>r. Length r > 30 \<and> Length r < 400) ais;
         ais = map (\<lambda>r. r\<lparr>Heading := (if Heading r = Some 511 then None else Heading r)\<rparr>) ais;
         ais = sort_key (\<lambda>r. (MMSI r, BaseDateTime r)) ais;
         pings = cumcount (map MMSI ais)
     in map (\<lambda>(r, p).
          \<lparr>mmsi = MMSI r, ping = p, utc = to_datetime (BaseDateTime r), lat = LAT r,
           lon = LON r, sog = SOG r, cog = COG r, heading = Heading r,
           length' = Length r, transceiver_class = TransceiverClass r\<rparr>) (zip ais pings))"


section \<open>The tile catalogue\<close>

text \<open>
  A row of the frame \<^verbatim>\<open>build_tiles\<close> returns: the index \<^verbatim>\<open>id\<close> (here \<open>id'\<close>), the
  geometry and the capture time. The geometry cell of a GeoDataFrame holds a shapely
  geometry or nothing (a missing or empty geometry): \<open>None\<close> is that case. The
  geometries themselves are a type parameter.
\<close>

record 'g tile =
  id' :: string
  geometry :: "'g option"
  date :: timestamp

text \<open>
  The frame \<^verbatim>\<open>sat_tiles\<close>: its rows, and the two columns \<^verbatim>\<open>build_chips\<close> assigns, each
  absent (\<open>None\<close>) or a column of one cell per row.
\<close>

record 'g tiles_frame =
  tile_rows :: "'g tile list"
  buffer_start_time :: "timestamp list option"
  buffer_end_time :: "timestamp list option"

text \<open>
  What a call can change outside its result: the caller's \<^verbatim>\<open>sat_tiles\<close> object, and the
  records sent through the \<^verbatim>\<open>logging\<close> module, which both source files import.
\<close>

record 'g state =
  sat_tiles :: "'g tiles_frame"
  logging :: "string list"

text \<open>
  \<^verbatim>\<open>build_tiles\<close> from the items the catalogue search returned, each (id, geometry as
  received, datetime). \<^verbatim>\<open>shape\<close> turns the received geometry into a shapely one, or
  raises; it is a parameter. The loop has no handler, so the first raise ends the call.
\<close>

datatype error = ShapeError string

fun collect_tiles :: "('j \<Rightarrow> error + 'g option) \<Rightarrow> (string \<times> 'j \<times> timestamp) list
    \<Rightarrow> error + 'g tile list" where
  "collect_tiles shape [] = Inr []"
| "collect_tiles shape ((idx, geom_json, dt) # items) =
    (case shape geom_json of
       Inl e \<Rightarrow> Inl e
     | Inr geom \<Rightarrow>
        (case collect_tiles shape items of
           Inl e \<Rightarrow> Inl e
         | Inr rest \<Rightarrow> Inr (\<lparr>id' = idx, geometry = geom, date = dt\<rparr> # rest)))"

definition build_tiles :: "('j \<Rightarrow> error + 'g option) \<Rightarrow> (string \<times> 'j \<times> timestamp) list
    \<Rightarrow> error + 'g tiles_frame" where
  "build_tiles shape items =
    (case collect_tiles shape items of
       Inl e \<Rightarrow> Inl e
     | Inr rows \<Rightarrow>
        Inr \<lparr>tile_rows = rows, buffer_start_time = None, buffer_end_time = None\<rparr>)"

section \<open>Matching and prediction: \<^verbatim>\<open>build_chips\<close>\<close>

text \<open>
  A row of \<^verbatim>\<open>gpd.sjoin(ais, sat_tiles, predicate="within")\<close>: the left row with its index,
  the index of the right row, and the right frame's other columns. The right geometry is
  not kept by the join.
\<close>

record joined_row =
  left_row :: report
  index_right :: string
  date_right :: timestamp
  buffer_start_right :: timestamp
  buffer_end_right :: timestamp

text \<open>The cells of a column; no row when the column is absent.\<close>

definition column :: "timestamp list option \<Rightarrow> timestamp list" where
  "column c = (case c of None \<Rightarrow> [] | Some xs \<Rightarrow> xs)"

definition right_rows :: "'g tiles_frame \<Rightarrow> ('g tile \<times> timestamp \<times> timestamp) list" where
  "right_rows fr =
     zip (tile_rows fr) (zip (column (buffer_start_time fr)) (column (buffer_end_time fr)))"

text \<open>
  The point \<^verbatim>\<open>points_from_xy(ais.lon, ais.lat)\<close> gives a report.
\<close>

definition point :: "report \<Rightarrow> real \<times> real" where
  "point r = (lon r, lat r)"

text \<open>
  The inner spatial join, by its result: one row per left row and right row whose
  geometries satisfy the predicate, ordered by left row, then by right row. The
  predicate between a point and a geometry is the parameter \<open>predicate\<close>
  (the source passes \<^verbatim>\<open>"within"\<close>); a right row
  without geometry joins nothing.
\<close>

definition sjoin :: "(real \<times> real \<Rightarrow> 'g \<Rightarrow> bool) \<Rightarrow> report list \<Rightarrow> 'g tiles_frame
    \<Rightarrow> joined_row list" where
  "sjoin predicate ais fr =
     concat (map (\<lambda>r.
       map (\<lambda>(t, bs, be).
             \<lparr>left_row = r, index_right = id' t, date_right = date t,
              buffer_start_right = bs, buffer_end_right = be\<rparr>)
           (filter (\<lambda>(t, bs, be).
                     (case geometry t of None \<Rightarrow> False | Some g \<Rightarrow> predicate (point r) g))
              (right_rows fr)))
       ais)"

text \<open>The two columns the rename gives new names.\<close>

definition start_time :: "joined_row \<Rightarrow> timestamp" where
  "start_time j = utc (left_row j)"

definition pred_time :: "joined_row \<Rightarrow> timestamp" where
  "pred_time j = date_right j"

text \<open>A row of the result: the joined row and the four columns computed from it.\<close>

record chip =
  row :: joined_row
  time_delta :: real
  travelled :: real
  pred_lat :: real
  pred_lon :: "real option"

text \<open>
  The column arithmetic of the second half of \<^verbatim>\<open>build_chips\<close>, on one row.
\<close>

definition predict :: "joined_row \<Rightarrow> chip" where
  "predict j =
    (let KNOTS_IN_KM = 1.852;
         SECONDS_IN_HOUR = 3600;
         KM_PER_DEGREE = 111.32;
         td = total_seconds (pred_time j - start_time j);
         tr = (sog (left_row j) * KNOTS_IN_KM) * (td / SECONDS_IN_HOUR);
         plat = lat (left_row j)
                + (tr * cos (radians (cog (left_row j)))) / KM_PER_DEGREE;
         plon = map_option (\<lambda>q. lon (left_row j) + q)
                  (np_divide (tr * sin (radians (cog (left_row j))))
                     (KM_PER_DEGREE * cos (radians (lat (left_row j)))))
     in \<lparr>row = j, time_delta = td, travelled = tr, pred_lat = plat, pred_lon = plon\<rparr>)"

text \<open>
  \<^verbatim>\<open>build_chips\<close>. The two assignments write into the caller's frame, so the frame is
  returned with the result.
\<close>

definition build_chips :: "(real \<times> real \<Rightarrow> 'g \<Rightarrow> bool) \<Rightarrow> report list \<Rightarrow> 'g state
    \<Rightarrow> 'g state \<times> chip list" where
  "build_chips predicate ais st =
    (let buffer = Timedelta_minutes 5;
         fr = sat_tiles st;
         fr = fr\<lparr>buffer_start_time := Some (map (\<lambda>t. date t - buffer) (tile_rows fr))\<rparr>;
         fr = fr\<lparr>buffer_end_time := Some (map (\<lambda>t. date t + buffer) (tile_rows fr))\<rparr>;
         intersection = sjoin predicate ais fr;
         intersection = filter (\<lambda>j. utc (left_row j) \<ge> buffer_start_right j
                                   \<and> utc (left_row j) \<le> buffer_end_right j) intersection
     in (st\<lparr>sat_tiles := fr\<rparr>, map predict intersection))"

section \<open>Auxiliary definitions\<close>

text \<open>
  The row the join gives for a report and a tile once \<^verbatim>\<open>build_chips\<close> has assigned the two
  buffer columns.
\<close>

definition join_row :: "report \<Rightarrow> 'g tile \<Rightarrow> joined_row" where
  "join_row r t =
     \<lparr>left_row = r, index_right = id' t, date_right = date t,
      buffer_start_right = date t - Timedelta_minutes 5,
      buffer_end_right = date t + Timedelta_minutes 5\<rparr>"

section \<open>The specification's predicates, in its own words\<close>

text \<open>
  Containment: the report's (lon, lat) point lies within the footprint's geometry, for
  the point-in-geometry test \<open>predicate\<close>. A footprint without geometry contains nothing.
\<close>

definition containment :: "(real \<times> real \<Rightarrow> 'g \<Rightarrow> bool) \<Rightarrow> report \<Rightarrow> 'g tile \<Rightarrow> bool" where
  "containment predicate r t =
     (case geometry t of None \<Rightarrow> False | Some g \<Rightarrow> predicate (point r) g)"

text \<open>
  Temporal proximity: \<open>|capture_time - report.timestamp| \<le> \<tau>\<close>, with \<open>\<tau>\<close> = 5 minutes =
  300 seconds.
\<close>

definition temporal_proximity :: "report \<Rightarrow> 'g tile \<Rightarrow> bool" where
  "temporal_proximity r t = (\<bar>total_seconds (date t - utc r)\<bar> \<le> 300)"

text \<open>The reference join: every pair of a report and a footprint, kept when both predicates hold.\<close>

definition brute_force_join :: "(real \<times> real \<Rightarrow> 'g \<Rightarrow> bool) \<Rightarrow> report list \<Rightarrow> 'g tile list
    \<Rightarrow> (report \<times> 'g tile) list" where
  "brute_force_join predicate reports footprints =
     [(r, t). r \<leftarrow> reports, t \<leftarrow> footprints,
              containment predicate r t \<and> temporal_proximity r t]"

text \<open>
  The dead-reckoning formulas as the specification writes them:
  \<open>distance_km = speed_over_ground \<times> 1.852 \<times> (time_delta_seconds / 3600)\<close>,
  \<open>predicted_lat = lat + (distance_km \<times> cos(radians(course))) / 111.32\<close>,
  \<open>predicted_lon = lon + (distance_km \<times> sin(radians(course))) / (111.32 \<times> cos(radians(lat)))\<close>.
\<close>

definition spec_distance_km :: "real \<Rightarrow> real \<Rightarrow> real" where
  "spec_distance_km speed_over_ground time_delta_seconds =
     speed_over_ground * 1.852 * (time_delta_seconds / 3600)"

definition spec_predicted_lat :: "real \<Rightarrow> real \<Rightarrow> real \<Rightarrow> real" where
  "spec_predicted_lat lat0 course_over_ground distance_km =
     lat0 + (distance_km * cos (radians course_over_ground)) / 111.32"

definition spec_predicted_lon :: "real \<Rightarrow> real \<Rightarrow> real \<Rightarrow> real \<Rightarrow> real" where
  "spec_predicted_lon lat0 lon0 course_over_ground distance_km =
     lon0 + (distance_km * sin (radians course_over_ground)) / (111.32 * cos (radians lat0))"

section \<open>Sample data\<close>

text \<open>
  The theorems hold for every point-in-geometry test. Where a result is evaluated on
  concrete rows, the geometries are axis-parallel boxes ((xmin, ymin), (xmax, ymax)) and
  the test is membership in the open box.
\<close>

definition box_interior :: "real \<times> real \<Rightarrow> (real \<times> real) \<times> (real \<times> real) \<Rightarrow> bool" where
  "box_interior pt box =
     (fst (fst box) < fst pt \<and> fst pt < fst (snd box)
      \<and> snd (fst box) < snd pt \<and> snd pt < snd (snd box))"

text \<open>A report on the prime meridian at latitude \<open>la\<close>, sent at \<open>ts\<close>: 12 knots, due east.\<close>

definition sample_report :: "timestamp \<Rightarrow> real \<Rightarrow> report" where
  "sample_report ts la =
     \<lparr>mmsi = 367000000, ping = 0, utc = ts, lat = la, lon = 0, sog = 12, cog = 90,
      heading = None, length' = 100, transceiver_class = ''A''\<rparr>"

text \<open>A footprint over the box from (-1, -1) to (1, 90) in (lon, lat), captured at \<open>d\<close>.\<close>

definition sample_tile :: "timestamp \<Rightarrow> ((real \<times> real) \<times> (real \<times> real)) tile" where
  "sample_tile d = \<lparr>id' = ''S1A'', geometry = Some ((-1, -1), (1, 90)), date = d\<rparr>"

text \<open>A caller's state: a frame without the buffer columns, and an empty log.\<close>

definition sample_state :: "'g tile list \<Rightarrow> 'g state" where
  "sample_state ts =
     \<lparr>sat_tiles = \<lparr>tile_rows = ts, buffer_start_time = None, buffer_end_time = None\<rparr>,
      logging = []\<rparr>"

text \<open>
  The joined row of the specification's analytic case: lat 0, lon 0, 10 knots, course
  90 degrees, captured 360 seconds after the report.
\<close>

definition analytic_row :: joined_row where
  "analytic_row =
     \<lparr>left_row = (sample_report 0 0)\<lparr>sog := 10\<rparr>, index_right = ''S1A'',
      date_right = 360000000000, buffer_start_right = 60000000000,
      buffer_end_right = 660000000000\<rparr>"

text \<open>
  Three rows as read, with \<open>BaseDateTime\<close> in seconds: two of one vessel, the later one
  first and with the heading 511; and one of a vessel at rest, which the speed filter drops.
\<close>

definition sample_csv :: "int csv_row list" where
  "sample_csv =
     [\<lparr>MMSI = 367000000, BaseDateTime = 120, LAT = 10, LON = 0, SOG = 12, COG = 90,
       Heading = Some 511, Length = 100, TransceiverClass = ''A''\<rparr>,
      \<lparr>MMSI = 367000000, BaseDateTime = 60, LAT = 10, LON = 0, SOG = 12, COG = 90,
       Heading = Some 90, Length = 100, TransceiverClass = ''A''\<rparr>,
      \<lparr>MMSI = 366000000, BaseDateTime = 90, LAT = 10, LON = 0, SOG = 0, COG = 90,
       Heading = Some 90, Length = 100, TransceiverClass = ''A''\<rparr>]"

text \<open>A parse for cells that hold seconds since the epoch.\<close>

definition seconds_to_datetime :: "int \<Rightarrow> timestamp" where
  "seconds_to_datetime s = s * 1000000000"

text \<open>A footprint without geometry, captured at \<open>d\<close>.\<close>

definition empty_tile :: "timestamp \<Rightarrow> ((real \<times> real) \<times> (real \<times> real)) tile" where
  "empty_tile d = \<lparr>id' = ''S1B'', geometry = None, date = d\<rparr>"

text \<open>A \<^verbatim>\<open>shape\<close> that reads two geometries and raises on anything else.\<close>

definition sample_shape :: "string \<Rightarrow> error + ((real \<times> real) \<times> (real \<times> real)) option" where
  "sample_shape g =
     (if g = ''box'' then Inr (Some ((-1, -1), (1, 90)))
      else if g = ''empty'' then Inr None
      else Inl (ShapeError g))"

section \<open>Parts of \<^verbatim>\<open>build\<close>, named for the proofs\<close>


text \<open>The row \<^verbatim>\<open>build\<close> returns for a kept row and its ping.\<close>

definition indexed_row :: "('u \<Rightarrow> timestamp) \<Rightarrow> 'u csv_row \<times> nat \<Rightarrow> report" where
  "indexed_row to_datetime = (\<lambda>(r, p).
     \<lparr>mmsi = MMSI r, ping = p, utc = to_datetime (BaseDateTime r), lat = LAT r,
      lon = LON r, sog = SOG r, cog = COG r, heading = Heading r,
      length' = Length r, transceiver_class = TransceiverClass r\<rparr>)"







text \<open>The sample report \<open>d\<close> degrees from the north pole, joined to a footprint captured 300 seconds later.\<close>

definition polar_row :: "real \<Rightarrow> joined_row" where
  "polar_row d = join_row (sample_report 0 (90 - d)) (sample_tile 300000000000)"

section \<open>The result of \<^verbatim>\<open>build_chips\<close>, row by row\<close>

lemma concat_map_if: "concat (map (\<lambda>t. if Q t then [f t] else []) ts) = map f (filter Q ts)"
  by (induction ts) auto

lemma brute_force_join_eq:
  "brute_force_join p rs ts =
     concat (map (\<lambda>r. map (Pair r) (filter (\<lambda>t. containment p r t \<and> temporal_proximity r t) ts)) rs)"
  unfolding brute_force_join_def by (simp add: concat_map_if)

lemma zip_assigned: "zip xs (zip (map f xs) (map g xs)) = map (\<lambda>x. (x, f x, g x)) xs"
  by (induction xs) auto

lemma right_rows_assigned:
  "right_rows (fr\<lparr>buffer_start_time := Some (map f (tile_rows fr)),
                 buffer_end_time := Some (map g (tile_rows fr))\<rparr>)
     = map (\<lambda>t. (t, f t, g t)) (tile_rows fr)"
  by (simp add: right_rows_def column_def zip_assigned)

lemma window_iff:
  "(date t - Timedelta_minutes 5 \<le> utc r \<and> utc r \<le> date t + Timedelta_minutes 5)
     = temporal_proximity r t"
  unfolding temporal_proximity_def total_seconds_def Timedelta_minutes_def
  by (auto simp: abs_le_iff field_simps)

lemma sjoin_assigned:
  "sjoin p ais (fr\<lparr>buffer_start_time := Some (map (\<lambda>t. date t - Timedelta_minutes 5) (tile_rows fr)),
                 buffer_end_time := Some (map (\<lambda>t. date t + Timedelta_minutes 5) (tile_rows fr))\<rparr>)
     = concat (map (\<lambda>r. map (join_row r) (filter (containment p r) (tile_rows fr))) ais)"
  unfolding sjoin_def right_rows_assigned
  by (simp add: filter_map o_def join_row_def[abs_def] containment_def[abs_def])

lemma filter_concat_map:
  "filter P (concat (map (\<lambda>r. map (h r) (filter (Q r) ts)) rs))
     = concat (map (\<lambda>r. map (h r) (filter (\<lambda>t. Q r t \<and> P (h r t)) ts)) rs)"
  by (induction rs) (auto simp: filter_map o_def conj_commute)

lemma build_chips_rows:
  "snd (build_chips p ais st)
     = map (\<lambda>(r, t). predict (join_row r t)) (brute_force_join p ais (tile_rows (sat_tiles st)))"
proof -
  have w: "\<And>r t. (buffer_start_right (join_row r t) \<le> utc (left_row (join_row r t))
            \<and> utc (left_row (join_row r t)) \<le> buffer_end_right (join_row r t))
          = temporal_proximity r t"
    using window_iff by (simp add: join_row_def)
  show ?thesis
    unfolding build_chips_def Let_def brute_force_join_eq
    by (simp add: sjoin_assigned filter_concat_map w map_concat o_def)
qed

lemma brute_force_join_product:
  "brute_force_join p rs ts =
     filter (\<lambda>(r, t). containment p r t \<and> temporal_proximity r t) (List.product rs ts)"
  unfolding brute_force_join_eq by (induction rs) (auto simp: filter_map o_def)

lemma set_brute_force_join:
  "set (brute_force_join p rs ts) =
     {(r, t). r \<in> set rs \<and> t \<in> set ts \<and> containment p r t \<and> temporal_proximity r t}"
  unfolding brute_force_join_product by auto


lemma row_predict [simp]: "row (predict j) = j"
  by (simp add: predict_def Let_def)

lemma join_row_sel [simp]:
  "left_row (join_row r t) = r" "index_right (join_row r t) = id' t"
  "date_right (join_row r t) = date t"
  by (simp_all add: join_row_def)



lemma Timedelta_5: "Timedelta_minutes 5 = 300000000000"
  by (simp add: Timedelta_minutes_def)

lemma time_delta_predict [simp]:
  "time_delta (predict j) = total_seconds (pred_time j - start_time j)"
  by (simp add: predict_def Let_def)

lemma temporal_proximity_ns:
  "temporal_proximity r t = (\<bar>date t - utc r\<bar> \<le> 300000000000)"
  unfolding temporal_proximity_def total_seconds_def
  by (auto simp: abs_le_iff field_simps)

lemma chip_cases:
  "c \<in> set (snd (build_chips p ais st)) \<Longrightarrow>
     \<exists>r \<in> set ais. \<exists>t \<in> set (tile_rows (sat_tiles st)).
        c = predict (join_row r t) \<and> containment p r t \<and> temporal_proximity r t"
  unfolding build_chips_rows by (auto simp: set_brute_force_join)

lemma chip_intro:
  "r \<in> set ais \<Longrightarrow> t \<in> set (tile_rows (sat_tiles st)) \<Longrightarrow> containment p r t
     \<Longrightarrow> temporal_proximity r t \<Longrightarrow> predict (join_row r t) \<in> set (snd (build_chips p ais st))"
  unfolding build_chips_rows by (force simp: set_brute_force_join)

text \<open>
  Claim C3. Every row of the result has \<open>|time_delta| \<le> 300\<close> seconds; the window is
  closed: a contained report whose timestamp is exactly the capture time minus or plus
  300 seconds (300000000000 ns) is in the result; and no row of the result pairs a report
  and a capture time more than 300 seconds apart.
\<close>

theorem C3_window_closed:
  fixes p :: "real \<times> real \<Rightarrow> 'g \<Rightarrow> bool"
  shows
  "(\<forall>c \<in> set (snd (build_chips p ais st)). \<bar>time_delta c\<bar> \<le> 300)
   \<and> (\<forall>r \<in> set ais. \<forall>t \<in> set (tile_rows (sat_tiles st)).
        containment p r t \<and> (utc r = date t - 300000000000 \<or> utc r = date t + 300000000000)
          \<longrightarrow> predict (join_row r t) \<in> set (snd (build_chips p ais st)))
   \<and> (\<forall>c \<in> set (snd (build_chips p ais st)).
        \<not> 300000000000 < \<bar>pred_time (row c) - start_time (row c)\<bar>)"
proof (intro conjI ballI impI)
  fix c assume "c \<in> set (snd (build_chips p ais st))"
  then obtain r and t :: "'g tile" where c: "c = predict (join_row r t)" and tp: "temporal_proximity r t"
    using chip_cases by blast
  show "\<bar>time_delta c\<bar> \<le> 300"
    using tp by (simp add: c temporal_proximity_def pred_time_def start_time_def)
  show "\<not> 300000000000 < \<bar>pred_time (row c) - start_time (row c)\<bar>"
    using tp by (simp add: c temporal_proximity_ns pred_time_def start_time_def)
next
  fix r t
  assume "r \<in> set ais" "t \<in> set (tile_rows (sat_tiles st))"
    and h: "containment p r t \<and> (utc r = date t - 300000000000 \<or> utc r = date t + 300000000000)"
  moreover from h have "temporal_proximity r t" by (auto simp: temporal_proximity_ns)
  ultimately show "predict (join_row r t) \<in> set (snd (build_chips p ais st))"
    using chip_intro by blast
qed

section \<open>The predictor\<close>

lemma travelled_predict:
  "travelled (predict j) = sog (left_row j) * 1.852 * (time_delta (predict j) / 3600)"
  by (simp add: predict_def Let_def)

lemma pred_lat_predict:
  "pred_lat (predict j) =
     lat (left_row j) + travelled (predict j) * cos (radians (cog (left_row j))) / 111.32"
  by (simp add: predict_def Let_def)

lemma pred_lon_predict:
  "cos (radians (lat (left_row j))) \<noteq> 0 \<Longrightarrow>
   pred_lon (predict j) =
     Some (lon (left_row j) + travelled (predict j) * sin (radians (cog (left_row j)))
             / (111.32 * cos (radians (lat (left_row j)))))"
  by (simp add: predict_def Let_def np_divide_def)

lemma radians_90: "radians 90 = pi / 2"
  by (simp add: radians_def)

lemma radians_0: "radians 0 = 0"
  by (simp add: radians_def)

text \<open>
  Claim C2. Every row of the result is the predictor's row for its joined row, and the
  predictor computes the specification's formulas: \<open>time_delta\<close> is capture time minus
  report time in seconds, \<open>travelled\<close> is \<open>distance_km\<close>, \<open>pred_lat\<close> is
  \<open>predicted_lat\<close>, and \<open>pred_lon\<close> is \<open>predicted_lon\<close> wherever the divisor
  \<open>cos(radians(lat))\<close> is not zero. For lat = 0, lon = 0, 10 knots, course 90 degrees and
  a capture 360 seconds after the report, the distance is 1.852 km, \<open>pred_lat\<close> is 0 and
  \<open>pred_lon\<close> is 1.852/111.32, within 1e-6. (Cells are reals: rounding is not modelled.)
\<close>

theorem C2_dead_reckoning:
  "(\<forall>c \<in> set (snd (build_chips p ais st)). c = predict (row c))
   \<and> time_delta (predict j) = total_seconds (pred_time j - start_time j)
   \<and> travelled (predict j) = spec_distance_km (sog (left_row j)) (time_delta (predict j))
   \<and> pred_lat (predict j)
       = spec_predicted_lat (lat (left_row j)) (cog (left_row j)) (travelled (predict j))
   \<and> (cos (radians (lat (left_row j))) \<noteq> 0 \<longrightarrow>
        pred_lon (predict j)
          = Some (spec_predicted_lon (lat (left_row j)) (lon (left_row j)) (cog (left_row j))
                    (travelled (predict j))))
   \<and> (lat (left_row j) = 0 \<and> lon (left_row j) = 0 \<and> sog (left_row j) = 10
        \<and> cog (left_row j) = 90 \<and> pred_time j - start_time j = 360000000000 \<longrightarrow>
        time_delta (predict j) = 360 \<and> travelled (predict j) = 1.852
        \<and> \<bar>pred_lat (predict j) - 0\<bar> \<le> 1 / 1000000
        \<and> (\<exists>v. pred_lon (predict j) = Some v \<and> \<bar>v - 1.852 / 111.32\<bar> \<le> 1 / 1000000))"
proof -
  have a: "\<forall>c \<in> set (snd (build_chips p ais st)). c = predict (row c)"
    by (auto dest!: chip_cases)
  have b: "time_delta (predict j) = total_seconds (pred_time j - start_time j)" by simp
  have c: "travelled (predict j) = spec_distance_km (sog (left_row j)) (time_delta (predict j))"
    by (simp add: travelled_predict spec_distance_km_def)
  have d: "pred_lat (predict j)
       = spec_predicted_lat (lat (left_row j)) (cog (left_row j)) (travelled (predict j))"
    by (simp add: pred_lat_predict spec_predicted_lat_def)
  have e: "cos (radians (lat (left_row j))) \<noteq> 0 \<longrightarrow>
        pred_lon (predict j)
          = Some (spec_predicted_lon (lat (left_row j)) (lon (left_row j)) (cog (left_row j))
                    (travelled (predict j)))"
    by (simp add: pred_lon_predict spec_predicted_lon_def)
  have f: "lat (left_row j) = 0 \<and> lon (left_row j) = 0 \<and> sog (left_row j) = 10
        \<and> cog (left_row j) = 90 \<and> pred_time j - start_time j = 360000000000 \<longrightarrow>
        time_delta (predict j) = 360 \<and> travelled (predict j) = 1.852
        \<and> \<bar>pred_lat (predict j) - 0\<bar> \<le> 1 / 1000000
        \<and> (\<exists>v. pred_lon (predict j) = Some v \<and> \<bar>v - 1.852 / 111.32\<bar> \<le> 1 / 1000000)"
  proof (rule impI)
    assume h: "lat (left_row j) = 0 \<and> lon (left_row j) = 0 \<and> sog (left_row j) = 10
        \<and> cog (left_row j) = 90 \<and> pred_time j - start_time j = 360000000000"
    have td: "time_delta (predict j) = 360" using h by (simp add: total_seconds_def)
    have tr: "travelled (predict j) = 1.852" using h td by (simp add: travelled_predict)
    have pl: "pred_lat (predict j) = 0"
      using h tr by (simp add: pred_lat_predict radians_90)
    have c0: "cos (radians (lat (left_row j))) \<noteq> 0" using h by (simp add: radians_0)
    have plo: "pred_lon (predict j) = Some (1.852 / 111.32)"
      using h tr pred_lon_predict[OF c0] by (simp add: radians_90 radians_0)
    show "time_delta (predict j) = 360 \<and> travelled (predict j) = 1.852
        \<and> \<bar>pred_lat (predict j) - 0\<bar> \<le> 1 / 1000000
        \<and> (\<exists>v. pred_lon (predict j) = Some v \<and> \<bar>v - 1.852 / 111.32\<bar> \<le> 1 / 1000000)"
    proof (intro conjI)
      show "time_delta (predict j) = 360" by (rule td)
      show "travelled (predict j) = 1.852" by (rule tr)
      show "\<bar>pred_lat (predict j) - 0\<bar> \<le> 1 / 1000000" unfolding pl by simp
      show "\<exists>v. pred_lon (predict j) = Some v \<and> \<bar>v - 1.852 / 111.32\<bar> \<le> 1 / 1000000"
        unfolding plo by (intro exI[of _ "1.852 / 111.32"]) simp
    qed
  qed
  show ?thesis by (intro conjI) (rule a b c d e f)+
qed

lemma build_sog_range:
  "r \<in> set (build to_datetime csv) \<Longrightarrow> 1 < sog r \<and> sog r < 80"
  unfolding build_def Let_def by (auto dest!: set_zip_leftD)

lemma build_length_range:
  "r \<in> set (build to_datetime csv) \<Longrightarrow> 30 < length' r \<and> length' r < 400"
  unfolding build_def Let_def by (auto dest!: set_zip_leftD)

text \<open>
  Claim C4. For a report of the ingested track store (so its speed lies in (1, 80)) and
  a footprint that contains it and was captured before the report, at most 300 seconds
  earlier: the pair is in the result, its \<open>time_delta\<close> and its distance are negative,
  and the predicted position is the reported one displaced by that negative distance
  along the course, that is backward.
\<close>

theorem C4_backward_projection:
  assumes "r \<in> set (build to_datetime csv)" "t \<in> set (tile_rows (sat_tiles st))"
    and "containment p r t" "date t < utc r" "utc r - date t \<le> 300000000000"
  shows "predict (join_row r t) \<in> set (snd (build_chips p (build to_datetime csv) st))
    \<and> time_delta (predict (join_row r t)) = total_seconds (date t - utc r)
    \<and> time_delta (predict (join_row r t)) < 0
    \<and> travelled (predict (join_row r t)) < 0
    \<and> pred_lat (predict (join_row r t)) - lat r
        = travelled (predict (join_row r t)) * (cos (radians (cog r)) / 111.32)
    \<and> (cos (radians (lat r)) \<noteq> 0 \<longrightarrow>
         (\<exists>v. pred_lon (predict (join_row r t)) = Some v
           \<and> v - lon r = travelled (predict (join_row r t))
                          * (sin (radians (cog r)) / (111.32 * cos (radians (lat r))))))"
proof -
  let ?c = "predict (join_row r t)"
  have tp: "temporal_proximity r t" using assms(4,5) by (simp add: temporal_proximity_ns)
  have m: "?c \<in> set (snd (build_chips p (build to_datetime csv) st))"
    using chip_intro[OF assms(1,2,3) tp] .
  have td: "time_delta ?c = total_seconds (date t - utc r)"
    by (simp add: pred_time_def start_time_def)
  have neg: "time_delta ?c < 0" unfolding td using assms(4) by (simp add: total_seconds_def)
  have sp: "0 < sog r" using build_sog_range[OF assms(1)] by simp
  have tr: "travelled ?c < 0"
    unfolding travelled_predict using sp neg by (simp add: mult_pos_neg)
  have pl: "pred_lat ?c - lat r = travelled ?c * (cos (radians (cog r)) / 111.32)"
    by (simp add: pred_lat_predict)
  have plo: "cos (radians (lat r)) \<noteq> 0 \<longrightarrow>
         (\<exists>v. pred_lon ?c = Some v
           \<and> v - lon r = travelled ?c * (sin (radians (cog r)) / (111.32 * cos (radians (lat r)))))"
    using pred_lon_predict[of "join_row r t"] by simp
  show ?thesis using m td neg tr pl plo by blast
qed

lemma sample_containment:
  "-1 < la \<Longrightarrow> la < 90 \<Longrightarrow> containment box_interior (sample_report ts la) (sample_tile d)"
  by (simp add: containment_def box_interior_def sample_report_def sample_tile_def point_def)


theorem C3_witness:
  "containment box_interior (sample_report 0 0) (sample_tile 300000000000)
   \<and> utc (sample_report 0 0) = date (sample_tile 300000000000) - 300000000000
   \<and> predict (join_row (sample_report 0 0) (sample_tile 300000000000))
       \<in> set (snd (build_chips box_interior [sample_report 0 0]
                 (sample_state [sample_tile 300000000000])))
   \<and> \<bar>time_delta (predict (join_row (sample_report 0 0) (sample_tile 300000000000)))\<bar> \<le> 300"
proof -
  let ?r = "sample_report 0 0" and ?t = "sample_tile 300000000000"
  let ?st = "sample_state [?t]"
  have rows: "tile_rows (sat_tiles ?st) = [?t]" by (simp add: sample_state_def)
  have c: "containment box_interior ?r ?t" by (simp add: sample_containment)
  have u: "utc ?r = date ?t - 300000000000" by (simp add: sample_report_def sample_tile_def)
  note th = C3_window_closed[of box_interior "[?r]" ?st]
  have a: "\<forall>c \<in> set (snd (build_chips box_interior [?r] ?st)). \<bar>time_delta c\<bar> \<le> 300"
    using th by (rule conjunct1)
  have b: "\<forall>r \<in> set [?r]. \<forall>t \<in> set (tile_rows (sat_tiles ?st)).
        containment box_interior r t \<and> (utc r = date t - 300000000000 \<or> utc r = date t + 300000000000)
          \<longrightarrow> predict (join_row r t) \<in> set (snd (build_chips box_interior [?r] ?st))"
    using th[THEN conjunct2] by (rule conjunct1)
  have m: "predict (join_row ?r ?t) \<in> set (snd (build_chips box_interior [?r] ?st))"
    using b c u unfolding rows by simp
  have "\<bar>time_delta (predict (join_row ?r ?t))\<bar> \<le> 300" using a m by (rule bspec)
  then show ?thesis using c u m by blast
qed

theorem C2_witness:
  "cos (radians (lat (left_row analytic_row))) \<noteq> 0
   \<and> lat (left_row analytic_row) = 0 \<and> lon (left_row analytic_row) = 0
   \<and> sog (left_row analytic_row) = 10 \<and> cog (left_row analytic_row) = 90
   \<and> pred_time analytic_row - start_time analytic_row = 360000000000
   \<and> time_delta (predict analytic_row) = 360 \<and> travelled (predict analytic_row) = 1.852
   \<and> \<bar>pred_lat (predict analytic_row) - 0\<bar> \<le> 1 / 1000000
   \<and> (\<exists>v. pred_lon (predict analytic_row) = Some v \<and> \<bar>v - 1.852 / 111.32\<bar> \<le> 1 / 1000000)"
proof -
  have c0: "cos (radians (lat (left_row analytic_row))) \<noteq> 0"
    by (simp add: analytic_row_def sample_report_def radians_def)
  have h: "lat (left_row analytic_row) = 0 \<and> lon (left_row analytic_row) = 0
     \<and> sog (left_row analytic_row) = 10 \<and> cog (left_row analytic_row) = 90
     \<and> pred_time analytic_row - start_time analytic_row = 360000000000"
    by (simp add: analytic_row_def sample_report_def pred_time_def start_time_def)
  have "time_delta (predict analytic_row) = 360 \<and> travelled (predict analytic_row) = 1.852
   \<and> \<bar>pred_lat (predict analytic_row) - 0\<bar> \<le> 1 / 1000000
   \<and> (\<exists>v. pred_lon (predict analytic_row) = Some v \<and> \<bar>v - 1.852 / 111.32\<bar> \<le> 1 / 1000000)"
    using C2_dead_reckoning[of box_interior "[]" "sample_state []" analytic_row,
        THEN conjunct2, THEN conjunct2, THEN conjunct2, THEN conjunct2, THEN conjunct2] h
    by (rule mp)
  then show ?thesis using c0 h by blast
qed

lemma build_sample_csv:
  "build seconds_to_datetime sample_csv =
     [\<lparr>mmsi = 367000000, ping = 0, utc = 60000000000, lat = 10, lon = 0, sog = 12, cog = 90,
       heading = Some 90, length' = 100, transceiver_class = ''A''\<rparr>,
      \<lparr>mmsi = 367000000, ping = 1, utc = 120000000000, lat = 10, lon = 0, sog = 12, cog = 90,
       heading = None, length' = 100, transceiver_class = ''A''\<rparr>]"
  by (simp add: build_def sample_csv_def seconds_to_datetime_def cumcount_def Let_def upt_rec)

theorem C4_witness:
  "\<lparr>mmsi = 367000000, ping = 1, utc = 120000000000, lat = 10, lon = 0, sog = 12, cog = 90,
     heading = None, length' = 100, transceiver_class = ''A''\<rparr>
     \<in> set (build seconds_to_datetime sample_csv)
   \<and> predict (join_row
        \<lparr>mmsi = 367000000, ping = 1, utc = 120000000000, lat = 10, lon = 0, sog = 12,
         cog = 90, heading = None, length' = 100, transceiver_class = ''A''\<rparr> (sample_tile 0))
       \<in> set (snd (build_chips box_interior (build seconds_to_datetime sample_csv)
                 (sample_state [sample_tile 0])))
   \<and> time_delta (predict (join_row
        \<lparr>mmsi = 367000000, ping = 1, utc = 120000000000, lat = 10, lon = 0, sog = 12,
         cog = 90, heading = None, length' = 100, transceiver_class = ''A''\<rparr> (sample_tile 0)))
       = - 120
   \<and> travelled (predict (join_row
        \<lparr>mmsi = 367000000, ping = 1, utc = 120000000000, lat = 10, lon = 0, sog = 12,
         cog = 90, heading = None, length' = 100, transceiver_class = ''A''\<rparr> (sample_tile 0)))
       < 0"
proof -
  let ?r = "\<lparr>mmsi = 367000000, ping = 1, utc = 120000000000, lat = 10, lon = 0, sog = 12,
     cog = 90, heading = None, length' = 100, transceiver_class = ''A''\<rparr>"
  let ?t = "sample_tile 0"
  have h1: "?r \<in> set (build seconds_to_datetime sample_csv)"
    unfolding build_sample_csv by simp
  have h2: "?t \<in> set (tile_rows (sat_tiles (sample_state [?t])))"
    by (simp add: sample_state_def)
  have h3: "containment box_interior ?r ?t"
    by (simp add: containment_def box_interior_def sample_tile_def point_def)
  have h4: "date ?t < utc ?r" by (simp add: sample_tile_def)
  have h5: "utc ?r - date ?t \<le> 300000000000" by (simp add: sample_tile_def)
  note th = C4_backward_projection[OF h1 h2 h3 h4 h5]
  have m: "predict (join_row ?r ?t)
      \<in> set (snd (build_chips box_interior (build seconds_to_datetime sample_csv)
                (sample_state [?t])))"
    using th by (rule conjunct1)
  have td: "time_delta (predict (join_row ?r ?t)) = total_seconds (date ?t - utc ?r)"
    using th[THEN conjunct2] by (rule conjunct1)
  have tr: "travelled (predict (join_row ?r ?t)) < 0"
    using th[THEN conjunct2, THEN conjunct2, THEN conjunct2] by (rule conjunct1)
  have "time_delta (predict (join_row ?r ?t)) = - 120"
    unfolding td by (simp add: total_seconds_def sample_tile_def)
  then show ?thesis using h1 m tr by blast
qed

section \<open>Effects of \<^verbatim>\<open>build_chips\<close> on the caller's state\<close>

lemma logging_build_chips: "logging (fst (build_chips p ais st)) = logging st"
  by (simp add: build_chips_def Let_def)

lemma sat_tiles_build_chips:
  "sat_tiles (fst (build_chips p ais st)) =
     (sat_tiles st)
       \<lparr>buffer_start_time :=
          Some (map (\<lambda>t. date t - Timedelta_minutes 5) (tile_rows (sat_tiles st))),
        buffer_end_time :=
          Some (map (\<lambda>t. date t + Timedelta_minutes 5) (tile_rows (sat_tiles st)))\<rparr>"
  by (simp add: build_chips_def Let_def)

lemma tile_rows_build_chips:
  "tile_rows (sat_tiles (fst (build_chips p ais st))) = tile_rows (sat_tiles st)"
  by (simp add: sat_tiles_build_chips)

lemma build_chips_fixed:
  "(fst (build_chips p ais st) = st) =
     (buffer_start_time (sat_tiles st)
        = Some (map (\<lambda>t. date t - Timedelta_minutes 5) (tile_rows (sat_tiles st)))
      \<and> buffer_end_time (sat_tiles st)
        = Some (map (\<lambda>t. date t + Timedelta_minutes 5) (tile_rows (sat_tiles st))))"
proof -
  obtain fr l where st: "st = \<lparr>sat_tiles = fr, logging = l\<rparr>" by (cases st) auto
  obtain rs bs be where fr: "fr = \<lparr>tile_rows = rs, buffer_start_time = bs, buffer_end_time = be\<rparr>"
    by (cases fr) auto
  show ?thesis unfolding st fr by (auto simp: build_chips_def Let_def)
qed

lemma build_tiles_columns:
  "build_tiles shape items = Inr fr \<Longrightarrow> buffer_start_time fr = None \<and> buffer_end_time fr = None"
  by (auto simp: build_tiles_def split: sum.splits)

lemma collect_tiles_raises:
  "shape g = Inl e \<Longrightarrow> \<exists>e'. collect_tiles shape (items1 @ (i, g, d) # items2) = Inl e'"
  by (induction items1) (auto split: sum.splits)

lemma build_tiles_raises:
  "shape g = Inl e \<Longrightarrow> \<exists>e'. build_tiles shape (items1 @ (i, g, d) # items2) = Inl e'"
  using collect_tiles_raises[of shape g e items1 i d items2] by (auto simp: build_tiles_def)

lemma rerun_rows:
  "snd (build_chips p ais (fst (build_chips p ais' st))) = snd (build_chips p ais st)"
  by (simp add: build_chips_rows tile_rows_build_chips)

section \<open>Footprints without geometry\<close>

lemma containment_None: "geometry t = None \<Longrightarrow> \<not> containment p r t"
  by (simp add: containment_def)

lemma brute_force_join_skip:
  "geometry t = None \<Longrightarrow>
     brute_force_join p rs (ts1 @ t # ts2) = brute_force_join p rs (ts1 @ ts2)"
  unfolding brute_force_join_eq by (simp add: containment_None)

section \<open>Order of the input rows\<close>

lemma mset_product_sum:
  "mset (List.product xs ys) = (\<Sum>x\<in>#mset xs. image_mset (Pair x) (mset ys))"
  by (induction xs) auto

lemma mset_brute_force_join:
  "mset (brute_force_join p rs ts) =
     filter_mset (\<lambda>(r, t). containment p r t \<and> temporal_proximity r t)
       (\<Sum>r\<in>#mset rs. image_mset (Pair r) (mset ts))"
  unfolding brute_force_join_product by (simp add: mset_product_sum)

lemma mset_chips:
  "mset ais = mset ais' \<Longrightarrow> mset (tile_rows (sat_tiles st)) = mset (tile_rows (sat_tiles st'))
     \<Longrightarrow> mset (snd (build_chips p ais st)) = mset (snd (build_chips p ais' st'))"
  unfolding build_chips_rows by (simp add: mset_brute_force_join)

section \<open>Footprints without geometry, reruns and the order of rows\<close>

lemma chips_single:
  "containment p r t \<Longrightarrow> temporal_proximity r t \<Longrightarrow>
     snd (build_chips p [r] (sample_state [t])) = [predict (join_row r t)]"
  by (simp add: build_chips_rows brute_force_join_eq sample_state_def)

text \<open>
  Claim C6, as the code has it. A footprint without geometry gives no row, and the result
  is the result for the other footprints, row for row; nothing is sent to \<^verbatim>\<open>logging\<close>,
  so the footprint is skipped without a diagnostic.
\<close>

theorem C6_no_geometry_skipped_silently:
  assumes "geometry t = None" "tile_rows (sat_tiles st) = ts1 @ t # ts2"
  shows "snd (build_chips p ais st)
           = snd (build_chips p ais (st\<lparr>sat_tiles := (sat_tiles st)\<lparr>tile_rows := ts1 @ ts2\<rparr>\<rparr>))
    \<and> snd (build_chips p ais st)
           = map (\<lambda>(r, t). predict (join_row r t)) (brute_force_join p ais (ts1 @ ts2))
    \<and> logging (fst (build_chips p ais st)) = logging st"
  using assms by (simp add: build_chips_rows brute_force_join_skip logging_build_chips)

theorem C6_witness:
  "geometry (empty_tile 100000000000) = None
   \<and> snd (build_chips box_interior [sample_report 0 0]
        (sample_state [empty_tile 100000000000, sample_tile 100000000000]))
     = snd (build_chips box_interior [sample_report 0 0] (sample_state [sample_tile 100000000000]))"
proof -
  let ?st = "sample_state [empty_tile 100000000000, sample_tile 100000000000]"
  have g: "geometry (empty_tile 100000000000) = None" by (simp add: empty_tile_def)
  have r: "tile_rows (sat_tiles ?st) = [] @ empty_tile 100000000000 # [sample_tile 100000000000]"
    by (simp add: sample_state_def)
  have e: "?st\<lparr>sat_tiles := (sat_tiles ?st)\<lparr>tile_rows := [] @ [sample_tile 100000000000]\<rparr>\<rparr>
      = sample_state [sample_tile 100000000000]"
    by (simp add: sample_state_def)
  show ?thesis
    using C6_no_geometry_skipped_silently[OF g r, of box_interior "[sample_report 0 0]",
        THEN conjunct1] g
    unfolding e by simp
qed

text \<open>
  The claim as stated asks for a diagnostic. Here a footprint without geometry stands
  before a good one: the good one's row is returned and the log is still empty.
\<close>

theorem C6_counterexample:
  "snd (build_chips box_interior [sample_report 0 0]
        (sample_state [empty_tile 100000000000, sample_tile 100000000000]))
     = [predict (join_row (sample_report 0 0) (sample_tile 100000000000))]
   \<and> logging (fst (build_chips box_interior [sample_report 0 0]
        (sample_state [empty_tile 100000000000, sample_tile 100000000000]))) = []"
proof -
  have c: "containment box_interior (sample_report 0 0) (sample_tile 100000000000)"
    by (simp add: sample_containment)
  have n: "\<not> containment box_interior (sample_report 0 0) (empty_tile 100000000000)"
    by (simp add: containment_None empty_tile_def)
  have t: "temporal_proximity (sample_report 0 0) (sample_tile 100000000000)"
    by (simp add: temporal_proximity_ns sample_report_def sample_tile_def)
  show ?thesis
    using c n t
    by (simp add: build_chips_rows brute_force_join_eq logging_build_chips sample_state_def)
qed

text \<open>
  Claim C8. The result depends on the input rows only, not on their order: two runs on
  the same reports and the same footprints, in any order of the rows, return the same
  rows as unordered collections. A second run on the frame the first run has written
  into returns the rows of the first.
\<close>

theorem C8_deterministic:
  "(mset ais = mset ais' \<and> mset (tile_rows (sat_tiles st)) = mset (tile_rows (sat_tiles st'))
      \<longrightarrow> mset (snd (build_chips p ais st)) = mset (snd (build_chips p ais' st')))
   \<and> snd (build_chips p ais (fst (build_chips p ais st))) = snd (build_chips p ais st)"
  using mset_chips[of ais ais' st st' p] rerun_rows[of p ais ais st] by blast

theorem C8_witness:
  "mset [sample_report 0 0, sample_report 5 1] = mset [sample_report 5 1, sample_report 0 0]
   \<and> mset (snd (build_chips box_interior [sample_report 0 0, sample_report 5 1]
              (sample_state [sample_tile 7, empty_tile 9])))
     = mset (snd (build_chips box_interior [sample_report 5 1, sample_report 0 0]
              (sample_state [empty_tile 9, sample_tile 7])))"
proof -
  have a: "mset [sample_report 0 0, sample_report 5 1] = mset [sample_report 5 1, sample_report 0 0]"
    by (simp add: add.commute)
  have b: "mset (tile_rows (sat_tiles (sample_state [sample_tile 7, empty_tile 9])))
      = mset (tile_rows (sat_tiles (sample_state [empty_tile 9, sample_tile 7])))"
    by (simp add: sample_state_def add.commute)
  show ?thesis
    using C8_deterministic[of "[sample_report 0 0, sample_report 5 1]"
        "[sample_report 5 1, sample_report 0 0]" "sample_state [sample_tile 7, empty_tile 9]"
        "sample_state [empty_tile 9, sample_tile 7]" box_interior, THEN conjunct1] a b
    by blast
qed

text \<open>
  Claim C9, as the code has it. Every call assigns the two columns
  \<^verbatim>\<open>buffer_start_time\<close> and \<^verbatim>\<open>buffer_end_time\<close> (the capture time minus and plus five
  minutes) in the caller's frame and changes nothing else. The caller's state is
  unchanged by the call exactly when the frame already held these two columns; a frame
  as \<^verbatim>\<open>build_tiles\<close> returns it has neither, so it is changed.
\<close>

theorem C9_frame_effect:
  "sat_tiles (fst (build_chips p ais st)) =
     (sat_tiles st)
       \<lparr>buffer_start_time :=
          Some (map (\<lambda>t. date t - Timedelta_minutes 5) (tile_rows (sat_tiles st))),
        buffer_end_time :=
          Some (map (\<lambda>t. date t + Timedelta_minutes 5) (tile_rows (sat_tiles st)))\<rparr>
   \<and> logging (fst (build_chips p ais st)) = logging st
   \<and> ((fst (build_chips p ais st) = st) =
       (buffer_start_time (sat_tiles st)
          = Some (map (\<lambda>t. date t - Timedelta_minutes 5) (tile_rows (sat_tiles st)))
        \<and> buffer_end_time (sat_tiles st)
          = Some (map (\<lambda>t. date t + Timedelta_minutes 5) (tile_rows (sat_tiles st)))))
   \<and> (build_tiles shape items = Inr (sat_tiles st) \<longrightarrow> fst (build_chips p ais st) \<noteq> st)"
proof -
  have "build_tiles shape items = Inr (sat_tiles st) \<longrightarrow> fst (build_chips p ais st) \<noteq> st"
    using build_tiles_columns[of shape items "sat_tiles st"] build_chips_fixed[of p ais st]
    by auto
  then show ?thesis
    using sat_tiles_build_chips[of p ais st] logging_build_chips[of p ais st]
      build_chips_fixed[of p ais st]
    by blast
qed

theorem C9_witness:
  "build_tiles sample_shape [(''S1A'', ''box'', 0)]
     = Inr (sat_tiles (sample_state [sample_tile 0]))
   \<and> fst (build_chips box_interior [sample_report 0 0] (sample_state [sample_tile 0]))
       \<noteq> sample_state [sample_tile 0]
   \<and> buffer_start_time (sat_tiles
        (fst (build_chips box_interior [sample_report 0 0] (sample_state [sample_tile 0]))))
       = Some [- 300000000000]
   \<and> buffer_end_time (sat_tiles
        (fst (build_chips box_interior [sample_report 0 0] (sample_state [sample_tile 0]))))
       = Some [300000000000]"
proof -
  let ?st = "sample_state [sample_tile 0]"
  have b: "build_tiles sample_shape [(''S1A'', ''box'', 0)] = Inr (sat_tiles ?st)"
    by (simp add: build_tiles_def sample_shape_def sample_state_def sample_tile_def)
  note th = C9_frame_effect[of box_interior "[sample_report 0 0]" ?st sample_shape
      "[(''S1A'', ''box'', 0)]"]
  have n: "fst (build_chips box_interior [sample_report 0 0] ?st) \<noteq> ?st"
    using th[THEN conjunct2, THEN conjunct2, THEN conjunct2] b by (rule mp)
  have s: "sat_tiles (fst (build_chips box_interior [sample_report 0 0] ?st)) =
     (sat_tiles ?st)
       \<lparr>buffer_start_time :=
          Some (map (\<lambda>t. date t - Timedelta_minutes 5) (tile_rows (sat_tiles ?st))),
        buffer_end_time :=
          Some (map (\<lambda>t. date t + Timedelta_minutes 5) (tile_rows (sat_tiles ?st)))\<rparr>"
    using th by (rule conjunct1)
  show ?thesis
    using b n unfolding s
    by (simp add: sample_state_def sample_tile_def Timedelta_5)
qed

text \<open>
  The claim as stated says every call changes the caller's frame. A call on the frame a
  first call has written into leaves it as it is.
\<close>

theorem C9_counterexample:
  "fst (build_chips box_interior [sample_report 0 0]
         (fst (build_chips box_interior [] (sample_state [sample_tile 0]))))
     = fst (build_chips box_interior [] (sample_state [sample_tile 0]))"
  by (simp add: build_chips_fixed sat_tiles_build_chips)

section \<open>The index \<^verbatim>\<open>build\<close> assigns\<close>

lemma length_cumcount [simp]: "length (cumcount ks) = length ks"
  by (simp add: cumcount_def)









lemma indexed_row_sel [simp]:
  "mmsi (indexed_row td z) = MMSI (fst z)" "ping (indexed_row td z) = snd z"
  "utc (indexed_row td z) = td (BaseDateTime (fst z))"
  by (simp_all add: indexed_row_def case_prod_beta)











section \<open>Latitudes near the pole\<close>

lemma cos_radians_near_pole: "cos (radians (90 - d)) = sin (radians d)"
proof -
  have "radians (90 - d) = pi / 2 - radians d" by (simp add: radians_def field_simps)
  then show ?thesis by (simp add: cos_diff)
qed

lemma sin_radians_small:
  assumes "0 < d" "d \<le> 1"
  shows "0 < sin (radians d)" "sin (radians d) < d / 45"
proof -
  have pos: "0 < radians d" using assms(1) by (simp add: radians_def)
  have "radians d \<le> pi / 180" using assms(2) by (simp add: radians_def)
  then have "radians d < pi" using pi_gt_zero by linarith
  with pos show "0 < sin (radians d)" by (rule sin_gt_zero)
  have "sin (radians d) \<le> radians d" using pos by (simp add: sin_x_le_x)
  also have "radians d < d * 4 / 180"
    unfolding radians_def using assms(1) pi_less_4 by (simp add: divide_strict_right_mono)
  finally show "sin (radians d) < d / 45" by simp
qed

lemma lat_polar_row: "lat (left_row (polar_row d)) = 90 - d"
  by (simp add: polar_row_def sample_report_def)

lemma travelled_polar_row: "travelled (predict (polar_row d)) = 1.852"
  by (simp add: travelled_predict polar_row_def sample_report_def sample_tile_def
      pred_time_def start_time_def total_seconds_def)

lemma pred_lon_polar_row:
  assumes "0 < d" "d \<le> 1"
  shows "\<exists>v. pred_lon (predict (polar_row d)) = Some v \<and> 37 / (50 * d) < v"
proof -
  let ?s = "sin (radians d)"
  have s: "0 < ?s" "?s < d / 45" using sin_radians_small[OF assms] by simp_all
  have c: "cos (radians (lat (left_row (polar_row d)))) = ?s"
    by (simp add: polar_row_def sample_report_def cos_radians_near_pole)
  then have c0: "cos (radians (lat (left_row (polar_row d)))) \<noteq> 0" using s(1) by simp
  have v: "pred_lon (predict (polar_row d)) = Some (1.852 / (111.32 * ?s))"
    unfolding pred_lon_predict[OF c0] travelled_polar_row c
    by (simp add: polar_row_def sample_report_def radians_90)
  have "111.32 * ?s < 111.32 * (d / 45)" using s(2) by simp
  then have "1.852 / (111.32 * (d / 45)) < 1.852 / (111.32 * ?s)"
    using s(1) by (intro divide_strict_left_mono) (simp_all add: assms(1))
  moreover have "37 / (50 * d) \<le> 1.852 / (111.32 * (d / 45))"
    using assms(1) by (simp add: field_simps)
  ultimately have "37 / (50 * d) < 1.852 / (111.32 * ?s)" by linarith
  with v show ?thesis by blast
qed

text \<open>
  Claim C5, as the code has it. The predictor applies the formula at every latitude:
  for every joined row, and so for every row of the result, whose divisor
  \<open>cos(radians(lat))\<close> is not zero, \<open>pred_lon\<close> is the raw quotient
  \<open>lon + travelled \<times> sin(radians(cog)) / (111.32 \<times> cos(radians(lat)))\<close>, however close
  the latitude is to a pole. There is no threshold, no clamping and no validity column,
  and nothing is sent to \<^verbatim>\<open>logging\<close>.
\<close>

theorem C5_prediction_unguarded:
  "(cos (radians (lat (left_row j))) \<noteq> 0 \<longrightarrow>
      pred_lon (predict j)
        = Some (lon (left_row j)
                + travelled (predict j) * sin (radians (cog (left_row j)))
                  / (111.32 * cos (radians (lat (left_row j))))))
   \<and> (\<forall>c \<in> set (snd (build_chips p ais st)).
        cos (radians (lat (left_row (row c)))) \<noteq> 0 \<longrightarrow>
          pred_lon c
            = Some (lon (left_row (row c))
                    + travelled c * sin (radians (cog (left_row (row c))))
                      / (111.32 * cos (radians (lat (left_row (row c)))))))
   \<and> logging (fst (build_chips p ais st)) = logging st"
proof -
  have a: "\<And>j. cos (radians (lat (left_row j))) \<noteq> 0 \<longrightarrow>
      pred_lon (predict j)
        = Some (lon (left_row j)
                + travelled (predict j) * sin (radians (cog (left_row j)))
                  / (111.32 * cos (radians (lat (left_row j)))))"
    using pred_lon_predict by blast
  have b: "\<forall>c \<in> set (snd (build_chips p ais st)).
        cos (radians (lat (left_row (row c)))) \<noteq> 0 \<longrightarrow>
          pred_lon c
            = Some (lon (left_row (row c))
                    + travelled c * sin (radians (cog (left_row (row c))))
                      / (111.32 * cos (radians (lat (left_row (row c))))))"
  proof
    fix c assume "c \<in> set (snd (build_chips p ais st))"
    then have c: "c = predict (row c)" by (auto dest!: chip_cases)
    show "cos (radians (lat (left_row (row c)))) \<noteq> 0 \<longrightarrow>
          pred_lon c
            = Some (lon (left_row (row c))
                    + travelled c * sin (radians (cog (left_row (row c))))
                      / (111.32 * cos (radians (lat (left_row (row c))))))"
      using a[of "row c"] c by simp
  qed
  show ?thesis using a[of j] b logging_build_chips[of p ais st] by blast
qed

theorem C5_witness:
  "cos (radians (lat (left_row (polar_row (1 / 1000))))) \<noteq> 0
   \<and> 89 < lat (left_row (polar_row (1 / 1000)))
   \<and> pred_lon (predict (polar_row (1 / 1000)))
       = Some (lon (left_row (polar_row (1 / 1000)))
                + travelled (predict (polar_row (1 / 1000)))
                  * sin (radians (cog (left_row (polar_row (1 / 1000)))))
                  / (111.32 * cos (radians (lat (left_row (polar_row (1 / 1000)))))))"
proof -
  have "cos (radians (lat (left_row (polar_row (1 / 1000))))) = sin (radians (1 / 1000))"
    unfolding lat_polar_row by (rule cos_radians_near_pole)
  then have c0: "cos (radians (lat (left_row (polar_row (1 / 1000))))) \<noteq> 0"
    using sin_radians_small(1)[of "1 / 1000"] by simp
  have l: "89 < lat (left_row (polar_row (1 / 1000)))"
    unfolding lat_polar_row by simp
  show ?thesis
    using C5_prediction_unguarded[of "polar_row (1 / 1000)" box_interior "[]" "sample_state []",
        THEN conjunct1] c0 l
    by blast
qed

text \<open>
  The claim as stated asks for a flag or a clamp near the poles. Here a report a
  thousandth of a degree from the pole is matched: its \<open>pred_lon\<close> is a finite number
  above 180 degrees, and the log is empty.
\<close>

theorem C5_counterexample:
  "(\<exists>c \<in> set (snd (build_chips box_interior [sample_report 0 (90 - 1 / 1000)]
                    (sample_state [sample_tile 300000000000]))).
      89 < lat (left_row (row c)) \<and> lat (left_row (row c)) < 90
      \<and> (\<exists>v. pred_lon c = Some v \<and> 180 < v))
   \<and> logging (fst (build_chips box_interior [sample_report 0 (90 - 1 / 1000)]
                    (sample_state [sample_tile 300000000000]))) = []"
proof -
  let ?r = "sample_report 0 (90 - 1 / 1000)" and ?t = "sample_tile 300000000000"
  have c: "containment box_interior ?r ?t" by (simp add: sample_containment)
  have t: "temporal_proximity ?r ?t"
    by (simp add: temporal_proximity_ns sample_report_def sample_tile_def)
  have rows: "snd (build_chips box_interior [?r] (sample_state [?t])) = [predict (polar_row (1 / 1000))]"
    unfolding polar_row_def using chips_single[OF c t] .
  obtain v where v: "pred_lon (predict (polar_row (1 / 1000))) = Some v"
      "37 / (50 * (1 / 1000)) < v"
    using pred_lon_polar_row[of "1 / 1000"] by auto
  then have "180 < v" by simp
  moreover have "89 < lat (left_row (polar_row (1 / 1000)))"
      "lat (left_row (polar_row (1 / 1000))) < 90"
    by (simp_all add: polar_row_def sample_report_def)
  ultimately show ?thesis
    unfolding rows using v(1) by (simp add: logging_build_chips sample_state_def)
qed

end
